theory Spec2Isabelle
  imports Complex_Main
begin

section \<open>Timing curves (manimlib/utils/rate\_functions.py)\<close>

text \<open>
  The rate functions take a Python float; they are embedded over the reals, so the
  statements below are about the mathematical curves, not about rounding.
\<close>

text \<open>
  Modelled from the spec: \<open>manimlib.utils.bezier.bezier\<close> is imported by the module but
  its file is not part of the sources. The comment in \<open>smooth\<close> (``equivalent to
  bezier([0, 0, 0, 1, 1, 1])'') fixes it as the Bernstein form of the curve with the
  given control values: the sum over \<open>k\<close> of
  \<open>(1 - t)^(n - k) * t^k * choose n k * point k\<close> with \<open>n = len points - 1\<close>.
\<close>

definition bezier :: "real list \<Rightarrow> real \<Rightarrow> real" where
  "bezier points t =
     (let n = length points - 1
      in sum_list (map (\<lambda>(k, point). (1 - t) ^ (n - k) * t ^ k * real (n choose k) * point)
                       (enumerate 0 points)))"

definition linear_rf :: "real \<Rightarrow> real" where
  \<comment> \<open>\<open>linear\<close> in the source; the name is taken in HOL.\<close>
  "linear_rf t = t"

definition smooth :: "real \<Rightarrow> real" where
  "smooth t = (let s = 1 - t in (t ^ 3) * (10 * s * s + 5 * s * t + t * t))"

definition rush_into :: "real \<Rightarrow> real" where
  "rush_into t = 2 * smooth (0.5 * t)"

definition rush_from :: "real \<Rightarrow> real" where
  "rush_from t = 2 * smooth (0.5 * (t + 1)) - 1"

definition slow_into :: "real \<Rightarrow> real" where
  "slow_into t = sqrt (1 - (1 - t) * (1 - t))"

definition double_smooth :: "real \<Rightarrow> real" where
  "double_smooth t =
     (if t < 0.5 then 0.5 * smooth (2 * t) else 0.5 * (1 + smooth (2 * t - 1)))"

definition there_and_back :: "real \<Rightarrow> real" where
  "there_and_back t = (let new_t = (if t < 0.5 then 2 * t else 2 * (1 - t)) in smooth new_t)"

definition there_and_back_with_pause :: "real \<Rightarrow> real \<Rightarrow> real" where
  "there_and_back_with_pause t pause_ratio =
     (let a = 2 / (1 - pause_ratio)
      in if t < 0.5 - pause_ratio / 2 then smooth (a * t)
         else if t < 0.5 + pause_ratio / 2 then 1
         else smooth (a - a * t))"

definition running_start :: "real \<Rightarrow> real \<Rightarrow> real" where
  "running_start t pull_factor = bezier [0, 0, pull_factor, pull_factor, 1, 1, 1] t"

definition overshoot :: "real \<Rightarrow> real \<Rightarrow> real" where
  "overshoot t pull_factor = bezier [0, 0, pull_factor, pull_factor, 1, 1] t"

definition not_quite_there :: "(real \<Rightarrow> real) \<Rightarrow> real \<Rightarrow> real \<Rightarrow> real" where
  "not_quite_there func proportion t = proportion * func t"

definition wiggle :: "real \<Rightarrow> real \<Rightarrow> real" where
  "wiggle t wiggles = there_and_back t * sin (wiggles * pi * t)"

definition squish_rate_func :: "(real \<Rightarrow> real) \<Rightarrow> real \<Rightarrow> real \<Rightarrow> real \<Rightarrow> real" where
  "squish_rate_func func a b t =
     (if a = b then a
      else if t < a then func 0
      else if t > b then func 1
      else func ((t - a) / (b - a)))"

definition lingering :: "real \<Rightarrow> real" where
  "lingering t = squish_rate_func (\<lambda>t. t) 0 0.8 t"

definition exponential_decay :: "real \<Rightarrow> real \<Rightarrow> real" where
  "exponential_decay t half_life = 1 - exp (- t / half_life)"

text \<open>The default arguments of the signatures.\<close>

definition running_start_default_pull_factor :: real where
  "running_start_default_pull_factor = - 0.5"

definition wiggle_default_wiggles :: real where
  "wiggle_default_wiggles = 2"

definition exponential_decay_default_half_life :: real where
  "exponential_decay_default_half_life = 0.1"

section \<open>Shared helpers\<close>

datatype py_error = KeyError | IndexError | ValueError | Exception string

text \<open>
  Python's \<open>int(x)\<close> on a float truncates towards zero; \<open>x % 1\<close> on a float is
  \<open>x - floor x\<close>.
\<close>

definition py_int :: "real \<Rightarrow> int" where
  "py_int x = (if 0 \<le> x then \<lfloor>x\<rfloor> else \<lceil>x\<rceil>)"

definition py_mod1 :: "real \<Rightarrow> real" where
  "py_mod1 x = x - of_int \<lfloor>x\<rfloor>"

text \<open>
  Subscripting a Python list with an integer: \<open>xs[i]\<close> reads position \<open>i\<close> when
  \<open>0 \<le> i < len xs\<close>, position \<open>len xs + i\<close> when \<open>- len xs \<le> i < 0\<close>, and raises
  IndexError for every other \<open>i\<close>.
\<close>

definition py_getitem :: "'a list \<Rightarrow> int \<Rightarrow> py_error + 'a" where
  "py_getitem xs i =
     (if 0 \<le> i \<and> i < int (length xs) then Inr (xs ! nat i)
      else if i < 0 \<and> - int (length xs) \<le> i then Inr (xs ! nat (int (length xs) + i))
      else Inl IndexError)"

text \<open>
  Modelled from the spec: \<open>manimlib.utils.simple_functions.clip\<close> is imported by
  creation.py and numbers.py but its file is not part of the sources. The spec has the
  index ``clamped to the valid range'' and the progress ``clipped to [0,1]'': a value
  below the lower bound becomes the lower bound, a value above the upper bound becomes
  the upper bound, any other value is returned as it is.
\<close>

definition clip :: "'a::linorder \<Rightarrow> 'a \<Rightarrow> 'a \<Rightarrow> 'a" where
  "clip a min_a max_a = (if a < min_a then min_a else if a > max_a then max_a else a)"

text \<open>
  Modelled from the spec: \<open>manimlib.utils.bezier.interpolate\<close> is not part of the
  sources. Section 4.3 of the spec gives the straight interpolation as
  \<open>(1 - alpha) * start + alpha * end\<close>.
\<close>

definition interpolate :: "real \<Rightarrow> real \<Rightarrow> real \<Rightarrow> real" where
  "interpolate start end' alpha = (1 - alpha) * start + alpha * end'"

text \<open>
  Modelled from the spec: \<open>manimlib.utils.bezier.integer_interpolate\<close> is not part of
  the sources. The spec calls it the ``integer-interpolated switch'' that splits the
  timeline into equal parts: it returns the index of the part that holds \<open>alpha\<close> and
  the progress inside that part; at \<open>alpha \<ge> 1\<close> the last part at progress 1, at
  \<open>alpha \<le> 0\<close> the first part at progress 0.
\<close>

definition integer_interpolate :: "int \<Rightarrow> int \<Rightarrow> real \<Rightarrow> int \<times> real" where
  "integer_interpolate start end' alpha =
     (if alpha \<ge> 1 then (end' - 1, 1)
      else if alpha \<le> 0 then (start, 0)
      else (let value = py_int (interpolate (of_int start) (of_int end') alpha);
                residue = py_mod1 (of_int (end' - start) * alpha)
            in (value, residue)))"

text \<open>
  Modelled from the spec: \<open>Animation.time_spanned_alpha\<close> belongs to
  manimlib/animation/animation.py, which is not part of the sources. Section 4.1 of the
  spec: an animation may be active only during a sub-interval of the timeline, with
  alpha 0 before it and 1 after; with no time span the alpha is passed on unchanged.
\<close>

definition time_spanned_alpha :: "real \<Rightarrow> (real \<times> real) option \<Rightarrow> real \<Rightarrow> real" where
  "time_spanned_alpha run_time time_span alpha =
     (case time_span of
        None \<Rightarrow> alpha
      | Some (start, end') \<Rightarrow> clip (alpha * run_time - start) 0 (end' - start) / (end' - start))"

section \<open>Partial reveal (manimlib/animation/creation.py)\<close>

definition ShowCreation_get_bounds :: "real \<Rightarrow> real \<times> real" where
  "ShowCreation_get_bounds alpha = (0, alpha)"

text \<open>
  \<open>ShowPartial.interpolate_submobject\<close>: the submobject becomes the part of its
  starting state between the bounds. \<open>pointwise_become_partial\<close> belongs to the scene
  node and is a parameter.
\<close>

definition ShowPartial_interpolate_submobject ::
  "('d \<Rightarrow> 'd \<Rightarrow> real \<Rightarrow> real \<Rightarrow> 'd) \<Rightarrow> (real \<Rightarrow> real \<times> real) \<Rightarrow> 'd \<Rightarrow> 'd \<Rightarrow> real \<Rightarrow> 'd" where
  "ShowPartial_interpolate_submobject pointwise_become_partial get_bounds submob start_submob alpha =
     (let (lower, upper) = get_bounds alpha
      in pointwise_become_partial submob start_submob lower upper)"

section \<open>Counting animations (manimlib/animation/numbers.py)\<close>

text \<open>
  The decimal mobject is kept as the number it shows: \<open>get_value\<close> reads it and
  \<open>set_value\<close> replaces it. The animation carries the fields that
  \<open>ChangingDecimal.interpolate_mobject\<close> reads: the mobject, the update function and
  the run time and time span of the base class.
\<close>

record decimal_number =
  number :: real

definition get_value :: "decimal_number \<Rightarrow> real" where
  "get_value m = number m"

definition set_value :: "decimal_number \<Rightarrow> real \<Rightarrow> decimal_number" where
  "set_value m v = m\<lparr>number := v\<rparr>"

record changing_decimal =
  cd_mobject :: decimal_number
  number_update_func :: "real \<Rightarrow> real"
  cd_run_time :: real
  cd_time_span :: "(real \<times> real) option"

definition ChangingDecimal_init ::
  "decimal_number \<Rightarrow> (real \<Rightarrow> real) \<Rightarrow> real \<Rightarrow> (real \<times> real) option \<Rightarrow> changing_decimal" where
  "ChangingDecimal_init decimal_mob update_func run_time time_span =
     \<lparr>cd_mobject = decimal_mob, number_update_func = update_func,
      cd_run_time = run_time, cd_time_span = time_span\<rparr>"

definition ChangingDecimal_interpolate_mobject :: "changing_decimal \<Rightarrow> real \<Rightarrow> changing_decimal" where
  "ChangingDecimal_interpolate_mobject self alpha =
     (let true_alpha = time_spanned_alpha (cd_run_time self) (cd_time_span self) alpha;
          new_value = number_update_func self true_alpha
      in self\<lparr>cd_mobject := set_value (cd_mobject self) new_value\<rparr>)"

text \<open>
  The class \<open>CountInFrom\<close> is defined twice in the module; the second definition
  (lines 159 to 198) replaces the first when the module is loaded, and is the one below.
\<close>

definition CountInFrom_init ::
  "decimal_number \<Rightarrow> real \<Rightarrow> real \<Rightarrow> (real \<times> real) option \<Rightarrow> changing_decimal" where
  "CountInFrom_init decimal_mob source_number run_time time_span =
     (let start_number = get_value decimal_mob
      in ChangingDecimal_init decimal_mob
           (\<lambda>a. interpolate source_number start_number (clip a 0 1)) run_time time_span)"

section \<open>Family-count animations (manimlib/animation/creation.py)\<close>

text \<open>
  The group's children are a list; an update returns the list that
  \<open>set_submobjects\<close> installs, or the error the update raises. \<open>np.ceil\<close>, the
  default rounding of \<open>ShowSubmobjectsOneByOne\<close>, returns a float.
\<close>

definition np_ceil :: "real \<Rightarrow> real" where
  "np_ceil x = of_int \<lceil>x\<rceil>"

text \<open>The slice \<open>xs[:index]\<close>: a negative index counts from the end.\<close>

definition py_slice_to :: "'a list \<Rightarrow> int \<Rightarrow> 'a list" where
  "py_slice_to xs index =
     (if index < 0 then take (nat (int (length xs) + index)) xs else take (nat index) xs)"

definition ShowIncreasingSubsets_update_submobject_list :: "'a list \<Rightarrow> int \<Rightarrow> py_error + 'a list" where
  "ShowIncreasingSubsets_update_submobject_list all_submobs index =
     Inr (py_slice_to all_submobs index)"

definition ShowSubmobjectsOneByOne_update_submobject_list :: "'a list \<Rightarrow> int \<Rightarrow> py_error + 'a list" where
  "ShowSubmobjectsOneByOne_update_submobject_list all_submobs index =
     (let index = clip index 0 (int (length all_submobs) - 1)
      in if index = 0 then Inr []
         else (case py_getitem all_submobs (index - 1) of
                 Inl e \<Rightarrow> Inl e
               | Inr sm \<Rightarrow> Inr [sm]))"

definition ShowIncreasingSubsets_interpolate_mobject ::
  "('a list \<Rightarrow> int \<Rightarrow> py_error + 'a list) \<Rightarrow> (real \<Rightarrow> real) \<Rightarrow> (real \<Rightarrow> real) \<Rightarrow> 'a list \<Rightarrow> real
     \<Rightarrow> py_error + 'a list" where
  "ShowIncreasingSubsets_interpolate_mobject update_submobject_list rate_func int_func all_submobs alpha =
     (let n_submobs = length all_submobs;
          alpha = rate_func alpha;
          index = py_int (int_func (alpha * real n_submobs))
      in update_submobject_list all_submobs index)"

definition ShowSubmobjectsOneByOne_interpolate_mobject ::
  "(real \<Rightarrow> real) \<Rightarrow> (real \<Rightarrow> real) \<Rightarrow> 'a list \<Rightarrow> real \<Rightarrow> py_error + 'a list" where
  "ShowSubmobjectsOneByOne_interpolate_mobject =
     ShowIncreasingSubsets_interpolate_mobject ShowSubmobjectsOneByOne_update_submobject_list"

section \<open>Draw the border, then fill (manimlib/animation/creation.py)\<close>

text \<open>
  A family member is its hash and its data. The operations of the scene node that
  \<open>interpolate_submobject\<close> calls are parameters: \<open>pointwise_become_partial\<close> gets the
  member's data, the other mobject's data and the two bounds, \<open>interpolate\<close> gets the
  member's data, the data of the two mobjects it interpolates between and the progress;
  each returns the member's new data. \<open>set_data\<close> copies the data of its argument. The
  dictionary \<open>sm_to_index\<close> maps a member's hash to 0 or 1; reading a missing key
  raises KeyError, and the \<open>and\<close> of the guard reads it only when the index is 1.
\<close>

record 'd vmobject =
  sm_hash :: nat
  data :: 'd

definition set_data :: "'d vmobject \<Rightarrow> 'd \<Rightarrow> 'd vmobject" where
  "set_data sm d = sm\<lparr>data := d\<rparr>"

definition first_time_crossing :: "(nat \<rightharpoonup> nat) \<Rightarrow> 'd vmobject \<Rightarrow> int \<Rightarrow> py_error + bool" where
  "first_time_crossing sm_to_index submob index =
     (if index = 1
      then (case sm_to_index (sm_hash submob) of
              None \<Rightarrow> Inl KeyError
            | Some v \<Rightarrow> Inr (v = 0))
      else Inr False)"

definition DrawBorderThenFill_interpolate_submobject ::
  "('d \<Rightarrow> 'd \<Rightarrow> real \<Rightarrow> real \<Rightarrow> 'd) \<Rightarrow> ('d \<Rightarrow> 'd \<Rightarrow> 'd \<Rightarrow> real \<Rightarrow> 'd)
     \<Rightarrow> (nat \<rightharpoonup> nat) \<Rightarrow> 'd vmobject \<Rightarrow> 'd vmobject \<Rightarrow> 'd vmobject \<Rightarrow> real
     \<Rightarrow> py_error + ((nat \<rightharpoonup> nat) \<times> 'd vmobject)" where
  "DrawBorderThenFill_interpolate_submobject pointwise_become_partial mob_interpolate
       sm_to_index submob start outline alpha =
     (let (index, subalpha) = integer_interpolate 0 2 alpha
      in case first_time_crossing sm_to_index submob index of
           Inl e \<Rightarrow> Inl e
         | Inr crossing \<Rightarrow>
             (let submob1 = (if crossing then set_data submob (data outline) else submob);
                  sm_to_index1 = (if crossing then sm_to_index(sm_hash submob \<mapsto> 1) else sm_to_index)
              in if index = 0
                 then Inr (sm_to_index1,
                           submob1\<lparr>data := pointwise_become_partial (data submob1) (data outline) 0 subalpha\<rparr>)
                 else Inr (sm_to_index1,
                           submob1\<lparr>data := mob_interpolate (data submob1) (data outline) (data start) subalpha\<rparr>)))"

text \<open>
  The animation calls \<open>interpolate_submobject\<close> once per frame. \<open>swap_count\<close> runs the
  frames of a list of alphas on one member and counts the frames in which the guard of
  the crossing holds, that is, in which \<open>set_data\<close> is called.
\<close>

fun swap_count ::
  "('d \<Rightarrow> 'd \<Rightarrow> real \<Rightarrow> real \<Rightarrow> 'd) \<Rightarrow> ('d \<Rightarrow> 'd \<Rightarrow> 'd \<Rightarrow> real \<Rightarrow> 'd)
     \<Rightarrow> (nat \<rightharpoonup> nat) \<Rightarrow> 'd vmobject \<Rightarrow> 'd vmobject \<Rightarrow> 'd vmobject \<Rightarrow> real list \<Rightarrow> nat" where
  "swap_count pbp itp sm_to_index submob start outline [] = 0"
| "swap_count pbp itp sm_to_index submob start outline (alpha # alphas) =
     (if first_time_crossing sm_to_index submob (fst (integer_interpolate 0 2 alpha)) = Inr True
      then 1 else 0)
     + (case DrawBorderThenFill_interpolate_submobject pbp itp sm_to_index submob start outline alpha of
          Inl e \<Rightarrow> 0
        | Inr (sm_to_index1, submob1) \<Rightarrow> swap_count pbp itp sm_to_index1 submob1 start outline alphas)"

section \<open>Transform and its target (manimlib/animation/transform.py)\<close>

text \<open>
  \<open>Transform.begin\<close> works on shared, mutable mobjects, so the model has an explicit
  store: a reference is a cell number, a cell holds the whole value of a mobject (its
  family and data), and \<open>next_ref\<close> is the first cell not yet allocated. Two mobjects of
  the store share nothing: a mobject that is a family member of another one is outside
  this model.
\<close>

type_synonym ref = nat

record 'm store =
  cells :: "ref \<Rightarrow> 'm"
  next_ref :: ref

definition alloc :: "'m \<Rightarrow> 'm store \<Rightarrow> ref \<times> 'm store" where
  "alloc v s = (next_ref s, s\<lparr>cells := (cells s)(next_ref s := v), next_ref := Suc (next_ref s)\<rparr>)"

text \<open>
  Modelled from the spec: \<open>Mobject.copy\<close> belongs to manimlib/mobject/mobject.py, which
  is not part of the sources. Section 6 of the spec: a deep clone of a node and its
  subtree, that is, a new mobject with the same value.
\<close>

definition Mobject_copy :: "ref \<Rightarrow> 'm store \<Rightarrow> ref \<times> 'm store" where
  "Mobject_copy r s = alloc (cells s r) s"

text \<open>
  The other methods of the scene node that \<open>begin\<close> calls are parameters:
  \<open>is_aligned_with\<close> compares two mobjects, \<open>align_data_and_family\<close> returns the new
  values of the mobject it is called on and of its argument (it may change both),
  \<open>lock_matching_data\<close> returns the new value of the mobject it is called on.
\<close>

record 'm mobject_ops =
  is_aligned_with :: "'m \<Rightarrow> 'm \<Rightarrow> bool"
  align_data_and_family :: "'m \<Rightarrow> 'm \<Rightarrow> 'm \<times> 'm"
  has_updaters :: "'m \<Rightarrow> bool"
  lock_matching_data :: "'m \<Rightarrow> 'm \<Rightarrow> 'm \<Rightarrow> 'm"

record transform =
  class_name :: string
  tr_mobject :: ref
  target_mobject :: "ref option"
  target_copy :: "ref option"
  starting_mobject :: "ref option"

definition Transform_init :: "string \<Rightarrow> ref \<Rightarrow> ref option \<Rightarrow> transform" where
  "Transform_init cls mobject target =
     \<lparr>class_name = cls, tr_mobject = mobject, target_mobject = target,
      target_copy = None, starting_mobject = None\<rparr>"

text \<open>
  \<open>create_target\<close> is the hook a subclass overrides: it may allocate, it may raise, and
  it returns a reference or \<open>None\<close>. The base class returns the stored target.
\<close>

type_synonym 'm create_target = "'m store \<Rightarrow> transform \<Rightarrow> py_error + (ref option \<times> 'm store)"

definition Transform_create_target :: "'m create_target" where
  "Transform_create_target s self = Inr (target_mobject self, s)"

text \<open>
  \<open>check_target_mobject_validity\<close> raises when the target is \<open>None\<close>; otherwise the
  model hands back the reference that was checked.
\<close>

definition check_target_mobject_validity :: "transform \<Rightarrow> py_error + ref" where
  "check_target_mobject_validity self =
     (case target_mobject self of
        None \<Rightarrow> Inl (Exception (class_name self @ ''.create_target not properly implemented''))
      | Some t \<Rightarrow> Inr t)"

text \<open>
  Modelled from the spec: \<open>Animation.begin\<close> belongs to manimlib/animation/animation.py,
  which is not part of the sources. Section 4.1 of the spec: \<open>begin\<close> captures a snapshot
  of the mobject's current family data, the starting state, owned by the animation.
\<close>

definition Animation_begin :: "'m store \<Rightarrow> transform \<Rightarrow> 'm store \<times> transform" where
  "Animation_begin s self =
     (let (r, s1) = Mobject_copy (tr_mobject self) s
      in (s1, self\<lparr>starting_mobject := Some r\<rparr>))"

text \<open>
  \<open>Transform.begin\<close>. The result is the exception raised, if any, with the store and
  the animation as they are when \<open>begin\<close> is left. When the mobject and the target copy
  are the same cell, that cell receives the value alignment gives to its argument.
\<close>

definition Transform_begin ::
  "'m mobject_ops \<Rightarrow> 'm create_target \<Rightarrow> 'm store \<Rightarrow> transform
     \<Rightarrow> py_error option \<times> 'm store \<times> transform" where
  "Transform_begin ops create_target s self =
     (case create_target s self of
        Inl e \<Rightarrow> (Some e, s, self)
      | Inr (target, s1) \<Rightarrow>
          (let self1 = self\<lparr>target_mobject := target\<rparr>
           in case check_target_mobject_validity self1 of
                Inl e \<Rightarrow> (Some e, s1, self1)
              | Inr t \<Rightarrow>
                  (let m = tr_mobject self1;
                       (tc, s2) = (if is_aligned_with ops (cells s1 m) (cells s1 t)
                                   then (t, s1) else Mobject_copy t s1);
                       self2 = self1\<lparr>target_copy := Some tc\<rparr>;
                       (m_aligned, tc_aligned) = align_data_and_family ops (cells s2 m) (cells s2 tc);
                       s3 = s2\<lparr>cells := (cells s2)(m := m_aligned, tc := tc_aligned)\<rparr>;
                       (s4, self3) = Animation_begin s3 self2;
                       s5 = (if \<not> has_updaters ops (cells s4 m)
                             then (case starting_mobject self3 of
                                     None \<Rightarrow> s4
                                   | Some st \<Rightarrow>
                                       s4\<lparr>cells := (cells s4)
                                             (m := lock_matching_data ops (cells s4 m) (cells s4 st) (cells s4 tc))\<rparr>)
                             else s4)
                   in (None, s5, self3))))"

section \<open>Cyclic replace (manimlib/animation/transform.py)\<close>

type_synonym vect3 = "real \<times> real \<times> real"

definition OUT :: vect3 where
  "OUT = (0, 0, 1)"

text \<open>
  Modelled from the spec: \<open>DEG\<close> belongs to manimlib/constants.py, which is not part of
  the sources. The spec gives \<open>path_arc\<close> in radians, so \<open>DEG\<close> is one degree in
  radians.
\<close>

definition DEG :: real where
  "DEG = pi / 180"

text \<open>
  A member of the group is its position (its center) and whatever else it carries.
  Modelled from the spec: \<open>Mobject.move_to\<close> belongs to manimlib/mobject/mobject.py,
  which is not part of the sources; it puts the mobject at the position of the mobject
  it is given and changes nothing else.
\<close>

record 'b placed =
  mob_center :: vect3
  mob_body :: 'b

definition move_to :: "'b placed \<Rightarrow> 'b placed \<Rightarrow> 'b placed" where
  "move_to m1 m2 = m1\<lparr>mob_center := mob_center m2\<rparr>"

datatype path_function =
    straight_path
  | path_along_arc real vect3
  | custom_path "vect3 \<Rightarrow> vect3 \<Rightarrow> real \<Rightarrow> vect3"

definition Transform_init_path_func :: "path_function option \<Rightarrow> real \<Rightarrow> vect3 \<Rightarrow> path_function" where
  "Transform_init_path_func path_func path_arc path_arc_axis =
     (case path_func of
        Some f \<Rightarrow> f
      | None \<Rightarrow> if path_arc = 0 then straight_path else path_along_arc path_arc path_arc_axis)"

record 'b cyclic_replace =
  cr_mobject :: "'b placed list"
  cr_path_arc :: real
  cr_path_func :: path_function

definition CyclicReplace_default_path_arc :: real where
  "CyclicReplace_default_path_arc = 90 * DEG"

definition CyclicReplace_init :: "'b placed list \<Rightarrow> real \<Rightarrow> 'b cyclic_replace" where
  "CyclicReplace_init mobjects path_arc =
     \<lparr>cr_mobject = mobjects, cr_path_arc = path_arc,
      cr_path_func = Transform_init_path_func None path_arc OUT\<rparr>"

text \<open>
  \<open>create_target\<close>: the target is a copy of the group; \<open>cycled_targets\<close> lists the
  members of the copy, last one first, by their position in the copy (they are
  references into it); the loop moves each of them to the group member it is zipped
  with. \<open>target[-1]\<close> raises IndexError on an empty group.
\<close>

definition CyclicReplace_create_target :: "'b cyclic_replace \<Rightarrow> py_error + 'b placed list" where
  "CyclicReplace_create_target self =
     (let group = cr_mobject self;
          target = group;
          members = [0..<length target]
      in case py_getitem members (- 1) of
           Inl e \<Rightarrow> Inl e
         | Inr last_member \<Rightarrow>
             (let cycled_targets = last_member # py_slice_to members (- 1)
              in Inr (fold (\<lambda>(m1, m2) tgt. tgt[m1 := move_to (tgt ! m1) m2])
                           (zip cycled_targets group) target)))"

section \<open>Fading (manimlib/animation/fading.py)\<close>

text \<open>
  Modelled from the spec: the mobject and its methods \<open>copy\<close>, \<open>set_opacity\<close>,
  \<open>shift\<close>, \<open>scale\<close>, \<open>get_center\<close>, \<open>get_width\<close>, \<open>get_height\<close> and
  \<open>interpolate\<close> belong to manimlib/mobject/mobject.py, and \<open>ORIGIN\<close> to
  manimlib/constants.py, which are not part of the sources. From sections 3 and 6 of
  the spec a node is its points and its style; here it is the list of its points and
  its opacity. \<open>shift\<close> adds the vector to every point; \<open>scale\<close> multiplies the
  distance of every point from the center of the bounding box by the factor, as the
  spec's scenario has it (``size has scaled to 0'' for the factor 0); the center is the
  midpoint of the bounding box, width and height are its extent along the first and
  the second axis.
\<close>

record fading_mobject =
  fm_points :: "vect3 list"
  fm_opacity :: real

definition ORIGIN :: vect3 where
  "ORIGIN = (0, 0, 0)"

fun vadd :: "vect3 \<Rightarrow> vect3 \<Rightarrow> vect3" where
  "vadd (x1, y1, z1) (x2, y2, z2) = (x1 + x2, y1 + y2, z1 + z2)"

fun vsub :: "vect3 \<Rightarrow> vect3 \<Rightarrow> vect3" where
  "vsub (x1, y1, z1) (x2, y2, z2) = (x1 - x2, y1 - y2, z1 - z2)"

fun vscale :: "real \<Rightarrow> vect3 \<Rightarrow> vect3" where
  "vscale c (x, y, z) = (c * x, c * y, c * z)"

definition lowest :: "real list \<Rightarrow> real" where
  "lowest xs = (case xs of [] \<Rightarrow> 0 | x # rest \<Rightarrow> fold min rest x)"

definition highest :: "real list \<Rightarrow> real" where
  "highest xs = (case xs of [] \<Rightarrow> 0 | x # rest \<Rightarrow> fold max rest x)"

definition midpoint_of :: "real list \<Rightarrow> real" where
  "midpoint_of xs = (lowest xs + highest xs) / 2"

definition get_center :: "fading_mobject \<Rightarrow> vect3" where
  "get_center m =
     (midpoint_of (map fst (fm_points m)),
      midpoint_of (map (fst \<circ> snd) (fm_points m)),
      midpoint_of (map (snd \<circ> snd) (fm_points m)))"

definition get_width :: "fading_mobject \<Rightarrow> real" where
  "get_width m = highest (map fst (fm_points m)) - lowest (map fst (fm_points m))"

definition get_height :: "fading_mobject \<Rightarrow> real" where
  "get_height m =
     highest (map (fst \<circ> snd) (fm_points m)) - lowest (map (fst \<circ> snd) (fm_points m))"

definition fm_copy :: "fading_mobject \<Rightarrow> fading_mobject" where
  "fm_copy m = m"

definition set_opacity :: "fading_mobject \<Rightarrow> real \<Rightarrow> fading_mobject" where
  "set_opacity m opacity = m\<lparr>fm_opacity := opacity\<rparr>"

definition fm_shift :: "fading_mobject \<Rightarrow> vect3 \<Rightarrow> fading_mobject" where
  "fm_shift m v = m\<lparr>fm_points := map (\<lambda>p. vadd p v) (fm_points m)\<rparr>"

definition fm_scale :: "fading_mobject \<Rightarrow> real \<Rightarrow> fading_mobject" where
  "fm_scale m scale_factor =
     (let about_point = get_center m
      in m\<lparr>fm_points := map (\<lambda>p. vadd (vscale scale_factor (vsub p about_point)) about_point)
                               (fm_points m)\<rparr>)"

text \<open>
  Modelled from the spec: \<open>straight_path\<close> belongs to manimlib/utils/paths.py, which is
  not part of the sources; section 4.3 of the spec gives it as
  \<open>(1 - alpha) * start + alpha * end\<close>. \<open>Mobject.interpolate\<close> sets every point to the
  path function of the two corresponding points and interpolates the style.
\<close>

definition straight_path_point :: "vect3 \<Rightarrow> vect3 \<Rightarrow> real \<Rightarrow> vect3" where
  "straight_path_point start end' alpha = vadd (vscale (1 - alpha) start) (vscale alpha end')"

definition fm_interpolate ::
  "fading_mobject \<Rightarrow> fading_mobject \<Rightarrow> fading_mobject \<Rightarrow> real \<Rightarrow> (vect3 \<Rightarrow> vect3 \<Rightarrow> real \<Rightarrow> vect3)
     \<Rightarrow> fading_mobject" where
  "fm_interpolate self mobject1 mobject2 alpha path_func =
     self\<lparr>fm_points := map (\<lambda>(p1, p2). path_func p1 p2 alpha)
                            (zip (fm_points mobject1) (fm_points mobject2)),
          fm_opacity := interpolate (fm_opacity mobject1) (fm_opacity mobject2) alpha\<rparr>"

text \<open>
  \<open>Fade.__init__\<close> stores the shift and the scale; \<open>FadeOut.__init__\<close> passes its
  \<open>shift\<close> on by position, \<open>remover\<close> and \<open>final_alpha_value\<close> by name, and \<open>scale\<close>
  reaches \<open>Fade.__init__\<close> through the keyword arguments.
\<close>

record fade =
  fade_mobject :: fading_mobject
  shift_vect :: vect3
  scale_factor :: real
  remover :: bool
  final_alpha_value :: real

definition FadeOut_init :: "fading_mobject \<Rightarrow> vect3 \<Rightarrow> real \<Rightarrow> fade" where
  "FadeOut_init mobject shift scale =
     \<lparr>fade_mobject = mobject, shift_vect = shift, scale_factor = scale,
      remover = True, final_alpha_value = 0\<rparr>"

definition FadeOut_create_target :: "fade \<Rightarrow> fading_mobject" where
  "FadeOut_create_target self =
     (let result = fm_copy (fade_mobject self);
          result = set_opacity result 0;
          result = fm_shift result (shift_vect self);
          result = fm_scale result (scale_factor self)
      in result)"

definition FadeIn_create_target :: "fade \<Rightarrow> fading_mobject" where
  "FadeIn_create_target self = fm_copy (fade_mobject self)"

text \<open>\<open>Transform.interpolate_submobject\<close>, with the path function of the animation.\<close>

definition Transform_interpolate_submobject ::
  "(vect3 \<Rightarrow> vect3 \<Rightarrow> real \<Rightarrow> vect3) \<Rightarrow> fading_mobject \<Rightarrow> fading_mobject \<Rightarrow> fading_mobject \<Rightarrow> real
     \<Rightarrow> fading_mobject" where
  "Transform_interpolate_submobject path_func submob start target_copy' alpha =
     fm_interpolate submob start target_copy' alpha path_func"

text \<open>The square of side 1 centered at the origin, by its corners, fully opaque.\<close>

definition unit_square :: fading_mobject where
  "unit_square =
     \<lparr>fm_points = [(1 / 2, 1 / 2, 0), (- 1 / 2, 1 / 2, 0), (- 1 / 2, - 1 / 2, 0), (1 / 2, - 1 / 2, 0)],
      fm_opacity = 1\<rparr>"

section \<open>Rotating (manimlib/animation/rotation.py)\<close>


















section \<open>Verified properties\<close>

subsection \<open>Timing curves at the ends of the timeline\<close>

lemma bezier_running_start_0: "bezier [0, 0, p, p, 1, 1, 1] 0 = 0"
  by (simp add: bezier_def)

lemma bezier_running_start_1: "bezier [0, 0, p, p, 1, 1, 1] 1 = 1"
  by (simp add: bezier_def)

lemma smooth_0: "smooth 0 = 0"
  by (simp add: smooth_def)

lemma smooth_1: "smooth 1 = 1"
  by (simp add: smooth_def)

lemma smooth_half: "smooth (1 / 2) = 1 / 2"
  by (simp add: smooth_def power3_eq_cube)

text \<open>
  C1, as the spec states it, fails: \<open>there_and_back\<close> is one of the curves the claim
  lists, it is neither an overshoot nor an offset curve, and it ends at 0, as its
  docstring says (``goes from 0 to 1 and back to 0'').
\<close>

theorem C1_there_and_back_counterexample:
  "\<not> (there_and_back 0 = 0 \<and> there_and_back 1 = 1)"
  by (simp add: there_and_back_def smooth_def)

text \<open>
  C1, amended. Every curve of the list starts at 0. The curves \<open>linear\<close>,
  \<open>smooth\<close>, \<open>rush_into\<close>, \<open>rush_from\<close>, \<open>slow_into\<close>, \<open>double_smooth\<close>,
  \<open>running_start\<close> (for every pull factor) and \<open>lingering\<close> end at 1. The curves
  \<open>there_and_back\<close> and \<open>wiggle\<close> (with the default two wiggles) return to 0 at
  \<open>t = 1\<close>, and \<open>exponential_decay\<close> with the default half life stops at
  \<open>1 - exp (-10)\<close>, strictly below 1.
\<close>

theorem C1_rate_function_endpoints:
  "linear_rf 0 = 0 \<and> linear_rf 1 = 1
   \<and> smooth 0 = 0 \<and> smooth 1 = 1
   \<and> rush_into 0 = 0 \<and> rush_into 1 = 1
   \<and> rush_from 0 = 0 \<and> rush_from 1 = 1
   \<and> slow_into 0 = 0 \<and> slow_into 1 = 1
   \<and> double_smooth 0 = 0 \<and> double_smooth 1 = 1
   \<and> running_start 0 pull_factor = 0 \<and> running_start 1 pull_factor = 1
   \<and> lingering 0 = 0 \<and> lingering 1 = 1
   \<and> there_and_back 0 = 0 \<and> there_and_back 1 = 0
   \<and> wiggle 0 wiggles = 0 \<and> wiggle 1 wiggle_default_wiggles = 0
   \<and> exponential_decay 0 half_life = 0
   \<and> exponential_decay 1 exponential_decay_default_half_life = 1 - exp (- 10)
   \<and> exponential_decay 1 exponential_decay_default_half_life < 1"
proof -
  have lin: "linear_rf 0 = 0 \<and> linear_rf 1 = 1"
    by (simp add: linear_rf_def)
  have rin: "rush_into 0 = 0 \<and> rush_into 1 = 1"
    using smooth_half by (simp add: rush_into_def smooth_0)
  have rfr: "rush_from 0 = 0 \<and> rush_from 1 = 1"
    using smooth_half by (simp add: rush_from_def smooth_1)
  have slo: "slow_into 0 = 0 \<and> slow_into 1 = 1"
    by (simp add: slow_into_def)
  have dbl: "double_smooth 0 = 0 \<and> double_smooth 1 = 1"
    by (simp add: double_smooth_def smooth_0 smooth_1)
  have run: "running_start 0 pull_factor = 0 \<and> running_start 1 pull_factor = 1"
    by (simp add: running_start_def bezier_running_start_0 bezier_running_start_1)
  have lng: "lingering 0 = 0 \<and> lingering 1 = 1"
    by (simp add: lingering_def squish_rate_func_def)
  have tab: "there_and_back 0 = 0 \<and> there_and_back 1 = 0"
    by (simp add: there_and_back_def smooth_0)
  have wig: "wiggle 0 wiggles = 0 \<and> wiggle 1 wiggle_default_wiggles = 0"
    using tab by (simp add: wiggle_def)
  have dec: "exponential_decay 0 half_life = 0
      \<and> exponential_decay 1 exponential_decay_default_half_life = 1 - exp (- 10)
      \<and> exponential_decay 1 exponential_decay_default_half_life < 1"
    by (simp add: exponential_decay_def exponential_decay_default_half_life_def)
  show ?thesis
    using lin smooth_0 smooth_1 rin rfr slo dbl run lng tab wig dec by blast
qed

subsection \<open>Bounds of the progressive reveal\<close>

text \<open>
  C5. \<open>ShowCreation.get_bounds\<close> returns \<open>(0, alpha)\<close> for every alpha; for alpha in
  \<open>[0, 1]\<close> the lower bound is at most the upper bound, and at \<open>alpha = 1\<close> the
  bounds are \<open>(0, 1)\<close>, the whole path.
\<close>

theorem C5_show_creation_bounds:
  "ShowCreation_get_bounds alpha = (0, alpha)
   \<and> (0 \<le> alpha \<and> alpha \<le> 1 \<longrightarrow>
        fst (ShowCreation_get_bounds alpha) \<le> snd (ShowCreation_get_bounds alpha))
   \<and> ShowCreation_get_bounds 1 = (0, 1)"
  by (simp add: ShowCreation_get_bounds_def)

theorem C5_show_creation_bounds_witness:
  "(0::real) \<le> 1 / 2 \<and> (1 / 2 :: real) \<le> 1
   \<and> ShowCreation_get_bounds (1 / 2) = (0, 1 / 2)
   \<and> fst (ShowCreation_get_bounds (1 / 2)) \<le> snd (ShowCreation_get_bounds (1 / 2))"
  using C5_show_creation_bounds [of "1 / 2"] by simp

subsection \<open>Draw the border, then fill\<close>

lemma integer_interpolate_0_2_cases:
  "integer_interpolate 0 2 alpha =
     (if 1 \<le> alpha then (1, 1) else if alpha \<le> 0 then (0, 0)
      else if alpha < 1 / 2 then (0, 2 * alpha) else (1, 2 * alpha - 1))"
proof -
  consider "alpha \<le> 0" | "alpha \<ge> 1" | "0 < alpha" "alpha < 1 / 2" | "1 / 2 \<le> alpha" "alpha < 1"
    by linarith
  then show ?thesis
  proof cases
    case 1 then show ?thesis by (simp add: integer_interpolate_def)
  next
    case 2 then show ?thesis by (simp add: integer_interpolate_def)
  next
    case 3
    then have "\<lfloor>alpha * 2\<rfloor> = 0" "\<lfloor>2 * alpha\<rfloor> = 0" by (simp_all add: floor_eq_iff)
    with 3 show ?thesis
      by (simp add: integer_interpolate_def interpolate_def py_int_def py_mod1_def)
  next
    case 4
    then have "\<lfloor>alpha * 2\<rfloor> = 1" "\<lfloor>2 * alpha\<rfloor> = 1" by (simp_all add: floor_eq_iff)
    with 4 show ?thesis
      by (simp add: integer_interpolate_def interpolate_def py_int_def py_mod1_def)
  qed
qed

lemma integer_interpolate_0_2:
  "0 \<le> alpha \<Longrightarrow> alpha \<le> 1 \<Longrightarrow>
   integer_interpolate 0 2 alpha = (if alpha < 1 / 2 then (0, 2 * alpha) else (1, 2 * alpha - 1))"
  by (auto simp add: integer_interpolate_0_2_cases)

lemma integer_interpolate_index:
  "fst (integer_interpolate 0 2 alpha) = (if alpha < 1 / 2 then 0 else 1)"
  by (simp add: integer_interpolate_0_2_cases)

lemma step_first_half:
  assumes "0 \<le> alpha" "alpha < 1 / 2"
  shows "DrawBorderThenFill_interpolate_submobject pbp itp idx submob start outline alpha =
         Inr (idx, submob\<lparr>data := pbp (data submob) (data outline) 0 (2 * alpha)\<rparr>)"
  using assms
  by (simp add: DrawBorderThenFill_interpolate_submobject_def integer_interpolate_0_2
      first_time_crossing_def)

lemma step_crossing:
  assumes "1 / 2 \<le> alpha" "alpha \<le> 1" "idx (sm_hash submob) = Some 0"
  shows "DrawBorderThenFill_interpolate_submobject pbp itp idx submob start outline alpha =
         Inr (idx(sm_hash submob \<mapsto> 1),
              submob\<lparr>data := itp (data outline) (data outline) (data start) (2 * alpha - 1)\<rparr>)"
  using assms
  by (simp add: DrawBorderThenFill_interpolate_submobject_def integer_interpolate_0_2
      first_time_crossing_def set_data_def)

lemma step_second_half:
  assumes "1 / 2 \<le> alpha" "alpha \<le> 1" "idx (sm_hash submob) = Some v" "v \<noteq> 0"
  shows "DrawBorderThenFill_interpolate_submobject pbp itp idx submob start outline alpha =
         Inr (idx, submob\<lparr>data := itp (data submob) (data outline) (data start) (2 * alpha - 1)\<rparr>)"
  using assms
  by (simp add: DrawBorderThenFill_interpolate_submobject_def integer_interpolate_0_2
      first_time_crossing_def set_data_def)

lemma step_keeps_hash_and_flag:
  assumes "DrawBorderThenFill_interpolate_submobject pbp itp idx submob start outline alpha = Inr (idx1, submob1)"
  shows "sm_hash submob1 = sm_hash submob
       \<and> (idx (sm_hash submob) = Some 0 \<and> alpha < 1 / 2 \<longrightarrow> idx1 (sm_hash submob) = Some 0)
       \<and> (idx (sm_hash submob) = Some 0 \<and> 1 / 2 \<le> alpha \<longrightarrow> idx1 (sm_hash submob) = Some 1)
       \<and> (idx (sm_hash submob) = Some (Suc v) \<longrightarrow> idx1 (sm_hash submob) = Some (Suc v))"
  using assms
  by (auto simp add: DrawBorderThenFill_interpolate_submobject_def integer_interpolate_0_2_cases
      first_time_crossing_def set_data_def Let_def split: if_splits option.splits)

lemma step_returns:
  assumes "idx (sm_hash submob) = Some v"
  shows "\<exists>idx1 submob1.
    DrawBorderThenFill_interpolate_submobject pbp itp idx submob start outline alpha = Inr (idx1, submob1)"
  using assms
  by (simp add: DrawBorderThenFill_interpolate_submobject_def integer_interpolate_0_2_cases
      first_time_crossing_def Let_def)

lemma swap_count_after:
  "idx (sm_hash submob) = Some (Suc v) \<Longrightarrow> swap_count pbp itp idx submob start outline alphas = 0"
proof (induction alphas arbitrary: idx submob)
  case Nil
  then show ?case by simp
next
  case (Cons a alphas)
  have g: "first_time_crossing idx submob (fst (integer_interpolate 0 2 a)) \<noteq> Inr True"
    using Cons.prems by (simp add: first_time_crossing_def)
  show ?case
  proof (cases "DrawBorderThenFill_interpolate_submobject pbp itp idx submob start outline a")
    case (Inl e)
    then show ?thesis using g by simp
  next
    case (Inr r)
    obtain idx1 submob1 where r: "r = (idx1, submob1)" by (cases r)
    from step_keeps_hash_and_flag [OF Inr [unfolded r]] Cons.prems
    have "idx1 (sm_hash submob1) = Some (Suc v)" by simp
    then have "swap_count pbp itp idx1 submob1 start outline alphas = 0"
      by (rule Cons.IH)
    then show ?thesis using g Inr r by simp
  qed
qed

lemma swap_count_before:
  "idx (sm_hash submob) = Some 0 \<Longrightarrow>
   swap_count pbp itp idx submob start outline alphas = (if list_ex (\<lambda>a. 1 / 2 \<le> a) alphas then 1 else 0)"
proof (induction alphas arbitrary: idx submob)
  case Nil
  then show ?case by simp
next
  case (Cons a alphas)
  obtain idx1 submob1 where
    st: "DrawBorderThenFill_interpolate_submobject pbp itp idx submob start outline a = Inr (idx1, submob1)"
    using step_returns [of idx submob 0 pbp itp start outline a] Cons.prems by blast
  note k = step_keeps_hash_and_flag [OF st, of 0]
  show ?case
  proof (cases "a < 1 / 2")
    case True
    then have "idx1 (sm_hash submob1) = Some 0" using k Cons.prems by simp
    then have "swap_count pbp itp idx1 submob1 start outline alphas
        = (if list_ex (\<lambda>a. 1 / 2 \<le> a) alphas then 1 else 0)"
      by (rule Cons.IH)
    with True show ?thesis
      using st by (simp add: first_time_crossing_def integer_interpolate_index)
  next
    case False
    then have "idx1 (sm_hash submob1) = Some (Suc 0)" using k Cons.prems by simp
    then have "swap_count pbp itp idx1 submob1 start outline alphas = 0"
      by (rule swap_count_after)
    with False show ?thesis
      using st Cons.prems by (simp add: first_time_crossing_def integer_interpolate_index)
  qed
qed

text \<open>
  C2. For alpha in \<open>[0, 1]\<close> and a member whose entry in \<open>sm_to_index\<close> is 0 or 1:
  below one half the member becomes the partial outline from 0 to \<open>2 * alpha\<close> and the
  entry is unchanged; from one half on, a member whose entry is 0 first takes the
  outline's data and its entry becomes 1, a member whose entry is 1 keeps its data, and
  in both cases the member then interpolates from the outline to the start state with
  progress \<open>2 * alpha - 1\<close>. Over any sequence of frames the data is swapped in at most
  one frame: in exactly one if the entry starts at 0 and some frame has
  \<open>alpha \<ge> 1/2\<close>, in none if the entry starts at 1.
\<close>

theorem C2_draw_border_then_fill:
  assumes "0 \<le> alpha" and "alpha \<le> 1"
    and "sm_to_index (sm_hash submob) = Some k" and "k \<le> 1"
  shows "(alpha < 1 / 2 \<longrightarrow>
            DrawBorderThenFill_interpolate_submobject pbp itp sm_to_index submob start outline alpha
              = Inr (sm_to_index, submob\<lparr>data := pbp (data submob) (data outline) 0 (2 * alpha)\<rparr>))
       \<and> (1 / 2 \<le> alpha \<and> k = 0 \<longrightarrow>
            DrawBorderThenFill_interpolate_submobject pbp itp sm_to_index submob start outline alpha
              = Inr (sm_to_index(sm_hash submob \<mapsto> 1),
                     submob\<lparr>data := itp (data outline) (data outline) (data start) (2 * alpha - 1)\<rparr>))
       \<and> (1 / 2 \<le> alpha \<and> k = 1 \<longrightarrow>
            DrawBorderThenFill_interpolate_submobject pbp itp sm_to_index submob start outline alpha
              = Inr (sm_to_index,
                     submob\<lparr>data := itp (data submob) (data outline) (data start) (2 * alpha - 1)\<rparr>))
       \<and> swap_count pbp itp sm_to_index submob start outline alphas
            = (if k = 0 \<and> list_ex (\<lambda>a. 1 / 2 \<le> a) alphas then 1 else 0)"
proof -
  have first: "alpha < 1 / 2 \<longrightarrow>
      DrawBorderThenFill_interpolate_submobject pbp itp sm_to_index submob start outline alpha
        = Inr (sm_to_index, submob\<lparr>data := pbp (data submob) (data outline) 0 (2 * alpha)\<rparr>)"
    using assms(1) by (simp add: step_first_half)
  have cross: "1 / 2 \<le> alpha \<and> k = 0 \<longrightarrow>
      DrawBorderThenFill_interpolate_submobject pbp itp sm_to_index submob start outline alpha
        = Inr (sm_to_index(sm_hash submob \<mapsto> 1),
               submob\<lparr>data := itp (data outline) (data outline) (data start) (2 * alpha - 1)\<rparr>)"
    using assms(2,3) by (simp add: step_crossing)
  have later: "1 / 2 \<le> alpha \<and> k = 1 \<longrightarrow>
      DrawBorderThenFill_interpolate_submobject pbp itp sm_to_index submob start outline alpha
        = Inr (sm_to_index,
               submob\<lparr>data := itp (data submob) (data outline) (data start) (2 * alpha - 1)\<rparr>)"
    using assms(2,3) step_second_half [of alpha sm_to_index submob 1 pbp itp start outline] by simp
  have count: "swap_count pbp itp sm_to_index submob start outline alphas
      = (if k = 0 \<and> list_ex (\<lambda>a. 1 / 2 \<le> a) alphas then 1 else 0)"
  proof (cases k)
    case 0
    then show ?thesis using assms(3) by (simp add: swap_count_before)
  next
    case (Suc v)
    then show ?thesis
      using assms(3) swap_count_after [of sm_to_index submob v pbp itp start outline alphas] by simp
  qed
  show ?thesis using first cross later count by blast
qed

theorem C2_draw_border_then_fill_witness:
  "(0::real) \<le> 3 / 4 \<and> (3 / 4 :: real) \<le> 1
   \<and> [7 \<mapsto> 0] (sm_hash \<lparr>sm_hash = 7, data = 3 :: real\<rparr>) = Some 0 \<and> (0::nat) \<le> 1
   \<and> DrawBorderThenFill_interpolate_submobject
         (\<lambda>self other a b. other * (b - a)) (\<lambda>self m1 m2 t. (1 - t) * m1 + t * m2)
         [7 \<mapsto> 0] \<lparr>sm_hash = 7, data = 3\<rparr> \<lparr>sm_hash = 8, data = 3\<rparr> \<lparr>sm_hash = 9, data = 1\<rparr> (3 / 4)
       = Inr ([7 \<mapsto> 1], \<lparr>sm_hash = 7, data = 2\<rparr>)
   \<and> swap_count
         (\<lambda>self other a b. other * (b - a)) (\<lambda>self m1 m2 t. (1 - t) * m1 + t * m2)
         [7 \<mapsto> 0] \<lparr>sm_hash = 7, data = 3\<rparr> \<lparr>sm_hash = 8, data = 3\<rparr> \<lparr>sm_hash = 9, data = 1\<rparr>
         [1 / 4, 1 / 2, 3 / 4, 1] = 1"
  using C2_draw_border_then_fill [of "3 / 4" "[7 \<mapsto> 0]" "\<lparr>sm_hash = 7, data = 3 :: real\<rparr>" 0
      "\<lambda>self other a b. other * (b - a)" "\<lambda>self m1 m2 t. (1 - t) * m1 + t * m2"
      "\<lparr>sm_hash = 8, data = 3\<rparr>" "\<lparr>sm_hash = 9, data = 1\<rparr>" "[1 / 4, 1 / 2, 3 / 4, 1]"]
  by simp

subsection \<open>Counting in from a source number\<close>

lemma clip_unit: "0 \<le> clip (a::real) 0 1 \<and> clip a 0 1 \<le> 1"
  by (simp add: clip_def)

lemma interpolate_between:
  assumes "0 \<le> t" "t \<le> 1"
  shows "min a b \<le> interpolate a b t \<and> interpolate a b t \<le> max a b"
proof -
  have e: "interpolate a b t = a + t * (b - a)"
    by (simp add: interpolate_def algebra_simps)
  show ?thesis
  proof (cases "a \<le> b")
    case True
    then have "0 \<le> t * (b - a)" "t * (b - a) \<le> b - a"
      using assms by (simp_all add: mult_left_le_one_le)
    with True show ?thesis unfolding e by linarith
  next
    case False
    then have "t * (b - a) \<le> 0" "b - a \<le> t * (b - a)"
      using assms by (simp_all add: mult_le_0_iff mult_left_le_one_le)
    with False show ?thesis unfolding e by linarith
  qed
qed

lemma CountInFrom_value:
  "get_value (cd_mobject (ChangingDecimal_interpolate_mobject (CountInFrom_init m src rt ts) alpha))
   = interpolate src (get_value m) (clip (time_spanned_alpha rt ts alpha) 0 1)"
  by (simp add: CountInFrom_init_def ChangingDecimal_init_def ChangingDecimal_interpolate_mobject_def
      get_value_def set_value_def)

text \<open>
  C10, as the spec states it, fails: the update function receives the alpha that the
  time-span restriction of the animation returns, not the supplied alpha. With a run
  time of 1 and the time span \<open>(0, 1/2)\<close>, counting from 0 to 100, the frame at
  \<open>alpha = 1/4\<close> shows 50, where \<open>interpolate 0 100 (clip (1/4) 0 1)\<close> is 25.
\<close>

theorem C10_time_span_counterexample:
  "get_value (cd_mobject (ChangingDecimal_interpolate_mobject
      (CountInFrom_init \<lparr>number = 100\<rparr> 0 1 (Some (0, 1 / 2))) (1 / 4))) = 50
   \<and> interpolate 0 100 (clip (1 / 4) 0 1) = 25
   \<and> get_value (cd_mobject (ChangingDecimal_interpolate_mobject
      (CountInFrom_init \<lparr>number = 100\<rparr> 0 1 (Some (0, 1 / 2))) (1 / 4)))
       \<noteq> interpolate 0 100 (clip (1 / 4) 0 1)"
  by (simp add: CountInFrom_init_def ChangingDecimal_init_def ChangingDecimal_interpolate_mobject_def
      get_value_def set_value_def time_spanned_alpha_def clip_def interpolate_def)

text \<open>
  C10, amended. The effective \<open>CountInFrom\<close> sets the number to
  \<open>interpolate source_number v0 (clip a 0 1)\<close>, where \<open>v0\<close> is the value at
  construction and \<open>a = time_spanned_alpha alpha\<close> is the alpha that
  \<open>interpolate_mobject\<close> hands to the update function; \<open>a\<close> is the supplied alpha
  itself when the animation has no time span. The rate function is not consulted. The
  number shown always lies between \<open>source_number\<close> and \<open>v0\<close>, and it is \<open>v0\<close> when
  the clipped \<open>a\<close> is 1.
\<close>

theorem C10_count_in_from:
  "get_value (cd_mobject (ChangingDecimal_interpolate_mobject (CountInFrom_init m src rt ts) alpha))
     = interpolate src (get_value m) (clip (time_spanned_alpha rt ts alpha) 0 1)
   \<and> (ts = None \<longrightarrow>
        get_value (cd_mobject (ChangingDecimal_interpolate_mobject (CountInFrom_init m src rt ts) alpha))
          = interpolate src (get_value m) (clip alpha 0 1))
   \<and> min src (get_value m)
        \<le> get_value (cd_mobject (ChangingDecimal_interpolate_mobject (CountInFrom_init m src rt ts) alpha))
   \<and> get_value (cd_mobject (ChangingDecimal_interpolate_mobject (CountInFrom_init m src rt ts) alpha))
        \<le> max src (get_value m)
   \<and> (clip (time_spanned_alpha rt ts alpha) 0 1 = 1 \<longrightarrow>
        get_value (cd_mobject (ChangingDecimal_interpolate_mobject (CountInFrom_init m src rt ts) alpha))
          = get_value m)"
proof -
  let ?v = "get_value (cd_mobject (ChangingDecimal_interpolate_mobject (CountInFrom_init m src rt ts) alpha))"
  let ?t = "clip (time_spanned_alpha rt ts alpha) 0 1"
  have v: "?v = interpolate src (get_value m) ?t"
    by (rule CountInFrom_value)
  have n: "ts = None \<longrightarrow> ?v = interpolate src (get_value m) (clip alpha 0 1)"
    by (simp add: CountInFrom_value time_spanned_alpha_def)
  have b: "min src (get_value m) \<le> ?v \<and> ?v \<le> max src (get_value m)"
    unfolding v using clip_unit [of "time_spanned_alpha rt ts alpha"]
    by (intro interpolate_between) simp_all
  have o: "?t = 1 \<longrightarrow> ?v = get_value m"
    by (simp add: v interpolate_def)
  show ?thesis using v n b o by blast
qed

theorem C10_count_in_from_witness:
  "(None :: (real \<times> real) option) = None
   \<and> clip (time_spanned_alpha 1 None (3 / 2)) 0 1 = 1
   \<and> get_value (cd_mobject (ChangingDecimal_interpolate_mobject
        (CountInFrom_init \<lparr>number = 50\<rparr> 25 1 None) (3 / 2))) = 50"
  using C10_count_in_from [of "\<lparr>number = 50\<rparr>" 25 1 None "3 / 2"]
  by (simp add: time_spanned_alpha_def clip_def get_value_def)

subsection \<open>Showing the children one by one\<close>

lemma one_by_one_nonempty:
  assumes "all_submobs \<noteq> []"
  shows "ShowSubmobjectsOneByOne_update_submobject_list all_submobs index = Inr []
       \<or> (\<exists>k. k + 1 < length all_submobs
             \<and> ShowSubmobjectsOneByOne_update_submobject_list all_submobs index = Inr [all_submobs ! k])"
proof -
  let ?n = "int (length all_submobs)"
  let ?i = "clip index 0 (?n - 1)"
  have n: "1 \<le> ?n" using assms by (cases all_submobs) simp_all
  have r: "0 \<le> ?i \<and> ?i \<le> ?n - 1" using n assms by (auto simp add: clip_def)
  show ?thesis
  proof (cases "?i = 0")
    case True
    then show ?thesis by (simp add: ShowSubmobjectsOneByOne_update_submobject_list_def)
  next
    case False
    with r have g: "0 \<le> ?i - 1" "?i - 1 < ?n" "nat (?i - 1) + 1 < length all_submobs" by linarith+
    then have "py_getitem all_submobs (?i - 1) = Inr (all_submobs ! nat (?i - 1))"
      by (simp add: py_getitem_def)
    with False g show ?thesis
      by (auto simp add: ShowSubmobjectsOneByOne_update_submobject_list_def Let_def)
  qed
qed

lemma one_by_one_empty:
  "ShowSubmobjectsOneByOne_interpolate_mobject rate_func np_ceil [] alpha = Inl IndexError"
  by (simp add: ShowSubmobjectsOneByOne_interpolate_mobject_def np_ceil_def
      ShowIncreasingSubsets_interpolate_mobject_def
      ShowSubmobjectsOneByOne_update_submobject_list_def clip_def py_getitem_def py_int_def)

text \<open>
  C7, evaluated on a group of two children. Whatever the rate function, the rounding
  function and alpha, the update shows no child or the first child; the second, last
  child is never the one shown. At \<open>alpha = 1\<close>, with the linear rate function and the
  default rounding \<open>np.ceil\<close>, the index is 2, the clamp lowers it to 1, and the child
  shown is the first one.
\<close>

theorem C7_last_child_never_shown:
  "(ShowSubmobjectsOneByOne_interpolate_mobject rate_func int_func [a, b] alpha = Inr []
     \<or> ShowSubmobjectsOneByOne_interpolate_mobject rate_func int_func [a, b] alpha = Inr [a])
   \<and> ShowSubmobjectsOneByOne_interpolate_mobject linear_rf np_ceil [a, b] 1 = Inr [a]"
proof -
  have u: "ShowSubmobjectsOneByOne_update_submobject_list [a, b] index = Inr []
        \<or> ShowSubmobjectsOneByOne_update_submobject_list [a, b] index = Inr [a]" for index
    using one_by_one_nonempty [of "[a, b]" index] by auto
  have e: "ShowSubmobjectsOneByOne_interpolate_mobject linear_rf np_ceil [a, b] 1 = Inr [a]"
    by (simp add: ShowSubmobjectsOneByOne_interpolate_mobject_def
      ShowIncreasingSubsets_interpolate_mobject_def linear_rf_def np_ceil_def py_int_def
      ShowSubmobjectsOneByOne_update_submobject_list_def clip_def py_getitem_def)
  show ?thesis
    using u e
    by (simp add: ShowSubmobjectsOneByOne_interpolate_mobject_def
      ShowIncreasingSubsets_interpolate_mobject_def Let_def)
qed

subsection \<open>Cyclic replace\<close>

lemma fold_move_length:
  "length (fold (\<lambda>(m1, m2) tgt. tgt[m1 := f (tgt ! m1) m2]) ps t) = length t"
  by (induction ps arbitrary: t) (auto split: prod.splits)

lemma fold_move_untouched:
  "i \<notin> set js \<Longrightarrow>
   fold (\<lambda>(m1, m2) tgt. tgt[m1 := f (tgt ! m1) m2]) (zip js ms) t ! i = t ! i"
proof (induction js arbitrary: ms t)
  case Nil
  then show ?case by simp
next
  case (Cons j js)
  then show ?case by (cases ms) simp_all
qed

lemma fold_move_nth:
  assumes "distinct js" and "\<forall>j\<in>set js. j < length t" and "length ms = length js"
    and "k < length js"
  shows "fold (\<lambda>(m1, m2) tgt. tgt[m1 := f (tgt ! m1) m2]) (zip js ms) t ! (js ! k)
         = f (t ! (js ! k)) (ms ! k)"
  using assms
proof (induction js arbitrary: ms t k)
  case Nil
  then show ?case by simp
next
  case (Cons j js)
  then obtain m ms' where ms: "ms = m # ms'" by (cases ms) auto
  show ?case
  proof (cases k)
    case 0
    have "j \<notin> set js" using Cons.prems(1) by simp
    then show ?thesis
      using 0 ms Cons.prems(2) by (simp add: fold_move_untouched)
  next
    case (Suc k')
    have ne: "js ! k' \<noteq> j" using Cons.prems(1,4) Suc by auto
    have "fold (\<lambda>(m1, m2) tgt. tgt[m1 := f (tgt ! m1) m2]) (zip js ms') (t[j := f (t ! j) m]) ! (js ! k')
          = f (t[j := f (t ! j) m] ! (js ! k')) (ms' ! k')"
      using Cons.prems Suc ms by (intro Cons.IH) auto
    then show ?thesis using Suc ms ne by simp
  qed
qed

lemma create_target_nonempty:
  assumes "cr_mobject self \<noteq> []"
  shows "CyclicReplace_create_target self =
     Inr (fold (\<lambda>(m1, m2) tgt. tgt[m1 := move_to (tgt ! m1) m2])
            (zip ((length (cr_mobject self) - 1) # [0..<length (cr_mobject self) - 1]) (cr_mobject self))
            (cr_mobject self))"
proof -
  let ?n = "length (cr_mobject self)"
  have n: "0 < ?n" "Suc 0 \<le> ?n" using assms by (cases "cr_mobject self", simp_all)+
  have g: "py_getitem [0..<?n] (- 1) = Inr (?n - 1)"
    using n by (simp add: py_getitem_def nat_diff_distrib' of_nat_diff)
  have s: "py_slice_to [0..<?n] (- 1) = [0..<?n - 1]"
    using n by (simp add: py_slice_to_def take_upt nat_diff_distrib')
  show ?thesis
    by (simp add: CyclicReplace_create_target_def g s Let_def)
qed

lemma create_target_member:
  assumes "i < length (cr_mobject self)"
  shows "\<exists>target. CyclicReplace_create_target self = Inr target
      \<and> length target = length (cr_mobject self)
      \<and> target ! i = move_to (cr_mobject self ! i) (cr_mobject self ! ((i + 1) mod length (cr_mobject self)))"
proof -
  let ?g = "cr_mobject self"
  let ?n = "length ?g"
  let ?js = "(?n - 1) # [0..<?n - 1]"
  let ?t = "fold (\<lambda>(m1, m2) tgt. tgt[m1 := move_to (tgt ! m1) m2]) (zip ?js ?g) ?g"
  have ne: "?g \<noteq> []" using assms by auto
  have ct: "CyclicReplace_create_target self = Inr ?t"
    by (rule create_target_nonempty [OF ne])
  have d: "distinct ?js" by simp
  have b: "\<forall>j\<in>set ?js. j < length ?g" using assms by auto
  have l: "length ?g = length ?js" using assms by simp
  have nth: "k < length ?js \<Longrightarrow> ?t ! (?js ! k) = move_to (?g ! (?js ! k)) (?g ! k)" for k
    using fold_move_nth [OF d b l, of k move_to] by simp
  have "?t ! i = move_to (?g ! i) (?g ! ((i + 1) mod ?n))"
  proof (cases "i = ?n - 1")
    case True
    moreover have "Suc (?n - 1) = ?n" using assms by simp
    ultimately have "(i + 1) mod ?n = 0" by simp
    then show ?thesis using nth [of 0] True by simp
  next
    case False
    then have lt: "i + 1 < ?n" using assms by simp
    then have "?js ! (i + 1) = i" by simp
    then show ?thesis using nth [of "i + 1"] lt by simp
  qed
  then show ?thesis using ct by (simp add: fold_move_length)
qed

text \<open>
  C6, amended. In a \<open>CyclicReplace\<close> over \<open>n \<ge> 1\<close> members, \<open>create_target\<close> returns
  a copy of the group in which member \<open>i\<close> keeps everything but its position and is
  placed at the position of member \<open>(i + 1) mod n\<close>, the next member, so every target
  position is one of the original positions; with the default \<open>path_arc\<close> of 90 degrees
  the one path function of the animation is the arc of \<open>pi / 2\<close> about \<open>OUT\<close>.
\<close>

theorem C6_cyclic_replace:
  assumes "i < length mobjects"
  shows "\<exists>target.
      CyclicReplace_create_target (CyclicReplace_init mobjects path_arc) = Inr target
    \<and> length target = length mobjects
    \<and> mob_center (target ! i) = mob_center (mobjects ! ((i + 1) mod length mobjects))
    \<and> mob_body (target ! i) = mob_body (mobjects ! i)
    \<and> mob_center (target ! i) \<in> set (map mob_center mobjects)
    \<and> cr_path_func (CyclicReplace_init mobjects CyclicReplace_default_path_arc)
        = path_along_arc (pi / 2) OUT"
proof -
  let ?self = "CyclicReplace_init mobjects path_arc"
  have g: "cr_mobject ?self = mobjects" by (simp add: CyclicReplace_init_def)
  from create_target_member [of i ?self] assms g obtain target where
    t: "CyclicReplace_create_target ?self = Inr target" "length target = length mobjects"
       "target ! i = move_to (mobjects ! i) (mobjects ! ((i + 1) mod length mobjects))"
    by auto
  have "0 < length mobjects" using assms by auto
  then have m: "(i + 1) mod length mobjects < length mobjects" by (rule mod_less_divisor)
  have p: "cr_path_func (CyclicReplace_init mobjects CyclicReplace_default_path_arc)
        = path_along_arc (pi / 2) OUT"
    by (simp add: CyclicReplace_init_def CyclicReplace_default_path_arc_def DEG_def
        Transform_init_path_func_def)
  show ?thesis using t m p by (auto simp add: move_to_def)
qed

theorem C6_cyclic_replace_witness:
  "(0::nat) < length [\<lparr>mob_center = (0, 0, 0), mob_body = ''a''\<rparr>,
                      \<lparr>mob_center = (1, 0, 0), mob_body = ''b''\<rparr>,
                      \<lparr>mob_center = (2, 0, 0), mob_body = ''c''\<rparr>]
   \<and> CyclicReplace_create_target (CyclicReplace_init
        [\<lparr>mob_center = (0, 0, 0), mob_body = ''a''\<rparr>,
         \<lparr>mob_center = (1, 0, 0), mob_body = ''b''\<rparr>,
         \<lparr>mob_center = (2, 0, 0), mob_body = ''c''\<rparr>] CyclicReplace_default_path_arc)
     = Inr [\<lparr>mob_center = (1, 0, 0), mob_body = ''a''\<rparr>,
            \<lparr>mob_center = (2, 0, 0), mob_body = ''b''\<rparr>,
            \<lparr>mob_center = (0, 0, 0), mob_body = ''c''\<rparr>]"
  using C6_cyclic_replace [of 0 "[\<lparr>mob_center = (0, 0, 0), mob_body = ''a''\<rparr>,
         \<lparr>mob_center = (1, 0, 0), mob_body = ''b''\<rparr>,
         \<lparr>mob_center = (2, 0, 0), mob_body = ''c''\<rparr>]" CyclicReplace_default_path_arc]
  by (simp add: CyclicReplace_create_target_def CyclicReplace_init_def py_getitem_def
      py_slice_to_def move_to_def upt_rec)

text \<open>
  C6, as the spec states it, fails: for three members at three different positions the
  target of member 0 is at the position of member 1, not at the position of member
  \<open>(0 - 1) mod 3 = 2\<close>.
\<close>

theorem C6_predecessor_counterexample:
  "CyclicReplace_create_target (CyclicReplace_init
        [\<lparr>mob_center = (0, 0, 0), mob_body = ''a''\<rparr>,
         \<lparr>mob_center = (1, 0, 0), mob_body = ''b''\<rparr>,
         \<lparr>mob_center = (2, 0, 0), mob_body = ''c''\<rparr>] CyclicReplace_default_path_arc)
     = Inr [\<lparr>mob_center = (1, 0, 0), mob_body = ''a''\<rparr>,
            \<lparr>mob_center = (2, 0, 0), mob_body = ''b''\<rparr>,
            \<lparr>mob_center = (0, 0, 0), mob_body = ''c''\<rparr>]
   \<and> mob_center ([\<lparr>mob_center = (1, 0, 0), mob_body = ''a''\<rparr>,
            \<lparr>mob_center = (2, 0, 0), mob_body = ''b''\<rparr>,
            \<lparr>mob_center = (0, 0, 0), mob_body = ''c''\<rparr>] ! 0)
       \<noteq> mob_center ([\<lparr>mob_center = (0, 0, 0), mob_body = ''a''\<rparr>,
            \<lparr>mob_center = (1, 0, 0), mob_body = ''b''\<rparr>,
            \<lparr>mob_center = (2, 0, 0), mob_body = ''c''\<rparr>] ! nat ((0 - 1) mod 3))"
  by (simp add: CyclicReplace_create_target_def CyclicReplace_init_def py_getitem_def
      py_slice_to_def move_to_def upt_rec)

lemma create_target_empty:
  "CyclicReplace_create_target (CyclicReplace_init [] path_arc) = Inl IndexError"
  by (simp add: CyclicReplace_create_target_def CyclicReplace_init_def py_getitem_def)

subsection \<open>Transform: resolving and preserving the target\<close>

text \<open>
  C3. When \<open>create_target\<close> yields \<open>None\<close>, \<open>begin\<close> raises the exception whose
  message starts with the name of the class, and it is left with the store exactly as
  \<open>create_target\<close> returned it: nothing is aligned, no starting state is captured,
  nothing is interpolated. The target is resolved by \<open>begin\<close>: the constructor only
  stores what it is given, and when \<open>create_target\<close> yields a reference \<open>begin\<close>
  does not raise and that reference is the animation's target. A plain \<open>Transform\<close>
  constructed without a target fails in the same way.
\<close>

theorem C3_missing_target_is_fatal:
  "(create_target s self = Inr (None, s1) \<longrightarrow>
      Transform_begin ops create_target s self
        = (Some (Exception (class_name self @ ''.create_target not properly implemented'')),
           s1, self\<lparr>target_mobject := None\<rparr>))
   \<and> (create_target s self = Inr (Some t, s1) \<longrightarrow>
        fst (Transform_begin ops create_target s self) = None
      \<and> target_mobject (snd (snd (Transform_begin ops create_target s self))) = Some t)
   \<and> target_mobject (Transform_init cls m target) = target
   \<and> Transform_begin ops Transform_create_target s (Transform_init cls m None)
        = (Some (Exception (cls @ ''.create_target not properly implemented'')),
           s, Transform_init cls m None)"
  by (simp add: Transform_begin_def check_target_mobject_validity_def Transform_create_target_def
      Transform_init_def Animation_begin_def Mobject_copy_def alloc_def Let_def
      split: prod.splits)

theorem C3_missing_target_is_fatal_witness:
  "(\<lambda>s self. Inr (None, s))
       \<lparr>cells = (\<lambda>r. []), next_ref = 1\<rparr> (Transform_init ''ApplyFunction'' 0 None)
     = (Inr (None, \<lparr>cells = (\<lambda>r. []), next_ref = 1\<rparr>) :: py_error + (ref option \<times> nat list store))
   \<and> Transform_begin
        \<lparr>is_aligned_with = (\<lambda>a b. length a = length b),
         align_data_and_family = (\<lambda>a b. (a @ drop (length a) b, b @ drop (length b) a)),
         has_updaters = (\<lambda>a. False),
         lock_matching_data = (\<lambda>a b c. a)\<rparr>
        (\<lambda>s self. Inr (None, s))
        \<lparr>cells = (\<lambda>r. [] :: nat list), next_ref = 1\<rparr> (Transform_init ''ApplyFunction'' 0 None)
     = (Some (Exception ''ApplyFunction.create_target not properly implemented''),
        \<lparr>cells = (\<lambda>r. []), next_ref = 1\<rparr>, Transform_init ''ApplyFunction'' 0 None)"
  using C3_missing_target_is_fatal [where create_target = "\<lambda>s self. Inr (None, s)"
      and s = "\<lparr>cells = (\<lambda>r. [] :: nat list), next_ref = 1\<rparr>"
      and self = "Transform_init ''ApplyFunction'' 0 None"
      and ?s1.0 = "\<lparr>cells = (\<lambda>r. []), next_ref = 1\<rparr>"
      and ops = "\<lparr>is_aligned_with = (\<lambda>a b. length a = length b),
         align_data_and_family = (\<lambda>a b. (a @ drop (length a) b, b @ drop (length b) a)),
         has_updaters = (\<lambda>a. False),
         lock_matching_data = (\<lambda>a b c. a)\<rparr>"
      and cls = "''ApplyFunction''" and m = 0 and t = 0 and target = None]
  by (simp add: Transform_init_def)

text \<open>
  C4. When the mobject and the target that \<open>create_target\<close> returned are different
  cells of the store and are not aligned, \<open>begin\<close> returns normally, the target's cell
  holds after \<open>begin\<close> the value it held before, the animation still refers to it as
  its target, and alignment has worked on a fresh cell, the target copy.
\<close>

theorem C4_target_preserved:
  assumes "create_target s self = Inr (Some t, s1)"
    and "t < next_ref s1" and "tr_mobject self < next_ref s1"
    and "t \<noteq> tr_mobject self"
    and "\<not> is_aligned_with ops (cells s1 (tr_mobject self)) (cells s1 t)"
  shows "\<exists>s' self'. Transform_begin ops create_target s self = (None, s', self')
       \<and> cells s' t = cells s1 t
       \<and> target_mobject self' = Some t
       \<and> target_copy self' = Some (next_ref s1)
       \<and> next_ref s1 \<noteq> t
       \<and> cells s' (next_ref s1)
           = snd (align_data_and_family ops (cells s1 (tr_mobject self)) (cells s1 t))"
  using assms
  by (auto simp add: Transform_begin_def check_target_mobject_validity_def
      Animation_begin_def Mobject_copy_def alloc_def Let_def split: prod.splits)

theorem C4_target_preserved_witness:
  "Transform_create_target \<lparr>cells = (\<lambda>r. [])(0 := [1, 2, 3], 1 := [4, 5, 6, 7, 8 :: nat]), next_ref = 2\<rparr>
       (Transform_init ''Transform'' 0 (Some 1))
     = Inr (Some 1, \<lparr>cells = (\<lambda>r. [])(0 := [1, 2, 3], 1 := [4, 5, 6, 7, 8]), next_ref = 2\<rparr>)
   \<and> (1::nat) < 2 \<and> (0::nat) < 2 \<and> (1::nat) \<noteq> 0
   \<and> length [1, 2, 3 :: nat] \<noteq> length [4, 5, 6, 7, 8 :: nat]
   \<and> (case Transform_begin
        \<lparr>is_aligned_with = (\<lambda>a b. length a = length b),
         align_data_and_family = (\<lambda>a b. (a @ drop (length a) b, b @ drop (length b) a)),
         has_updaters = (\<lambda>a. False),
         lock_matching_data = (\<lambda>a b c. a)\<rparr>
        Transform_create_target
        \<lparr>cells = (\<lambda>r. [])(0 := [1, 2, 3], 1 := [4, 5, 6, 7, 8 :: nat]), next_ref = 2\<rparr>
        (Transform_init ''Transform'' 0 (Some 1)) of
      (e, s', self') \<Rightarrow>
        e = None \<and> cells s' 1 = [4, 5, 6, 7, 8] \<and> cells s' 2 = [4, 5, 6, 7, 8]
        \<and> cells s' 0 = [1, 2, 3, 7, 8]
        \<and> target_mobject self' = Some 1 \<and> target_copy self' = Some 2)"
proof -
  let ?ops = "\<lparr>is_aligned_with = (\<lambda>a b. length a = length b),
         align_data_and_family = (\<lambda>a b. (a @ drop (length a) b, b @ drop (length b) a)),
         has_updaters = (\<lambda>a. False),
         lock_matching_data = (\<lambda>a b c. a)\<rparr> :: nat list mobject_ops"
  let ?s = "\<lparr>cells = (\<lambda>r. [])(0 := [1, 2, 3], 1 := [4, 5, 6, 7, 8 :: nat]), next_ref = 2\<rparr>"
  let ?self = "Transform_init ''Transform'' 0 (Some 1)"
  have c: "Transform_create_target ?s ?self = Inr (Some 1, ?s)"
    by (simp add: Transform_create_target_def Transform_init_def)
  have m: "tr_mobject ?self = 0" by (simp add: Transform_init_def)
  from C4_target_preserved [of Transform_create_target ?s ?self 1 ?s ?ops] c m
  obtain s' self' where
    r: "Transform_begin ?ops Transform_create_target ?s ?self = (None, s', self')"
       "cells s' 1 = [4, 5, 6, 7, 8]" "target_mobject self' = Some 1"
       "target_copy self' = Some 2" "cells s' 2 = [4, 5, 6, 7, 8]"
    by auto
  have z: "cells (fst (snd (Transform_begin ?ops Transform_create_target ?s ?self))) 0 = [1, 2, 3, 7, 8]"
    by (simp add: Transform_begin_def check_target_mobject_validity_def Transform_create_target_def
      Transform_init_def Animation_begin_def Mobject_copy_def alloc_def Let_def)
  show ?thesis using c r z by simp
qed

text \<open>When the two are aligned, the target copy is the target itself.\<close>

lemma aligned_target_is_shared:
  assumes "create_target s self = Inr (Some t, s1)"
    and "is_aligned_with ops (cells s1 (tr_mobject self)) (cells s1 t)"
  shows "target_copy (snd (snd (Transform_begin ops create_target s self))) = Some t"
  using assms
  by (auto simp add: Transform_begin_def check_target_mobject_validity_def
      Animation_begin_def Mobject_copy_def alloc_def Let_def split: prod.splits)

subsection \<open>Fading out with a shift and a scale\<close>

lemma fade_out_target:
  "FadeOut_create_target (FadeOut_init unit_square (1, 0, 0) 0)
     = \<lparr>fm_points = [(1, 0, 0), (1, 0, 0), (1, 0, 0), (1, 0, 0)], fm_opacity = 0\<rparr>"
  by (simp add: FadeOut_create_target_def FadeOut_init_def unit_square_def fm_copy_def
      set_opacity_def fm_shift_def fm_scale_def get_center_def midpoint_of_def lowest_def
      highest_def Let_def)

lemma fade_out_steps:
  "FadeOut_create_target (FadeOut_init m v f)
     = fm_scale (fm_shift (set_opacity (fm_copy m) 0) v) f"
  by (simp add: FadeOut_create_target_def FadeOut_init_def)

text \<open>
  C9. For a \<open>FadeOut\<close> of the unit square centered at the origin with shift
  \<open>(1, 0, 0)\<close> and scale 0, \<open>create_target\<close> is the copy with opacity 0, shifted by
  \<open>(1, 0, 0)\<close> and then scaled by 0 about its center, which the shift has put at
  \<open>(1, 0, 0)\<close>. Interpolating from the square to this target along the straight path
  at \<open>alpha = 1\<close> gives the target itself: the opacity is 0, the center has moved from
  the origin by exactly \<open>(1, 0, 0)\<close>, and width and height have gone from 1 to 0.
\<close>

theorem C9_fade_out_scenario:
  "FadeOut_create_target (FadeOut_init unit_square (1, 0, 0) 0)
     = fm_scale (fm_shift (set_opacity (fm_copy unit_square) 0) (1, 0, 0)) 0
   \<and> get_center (fm_shift (set_opacity (fm_copy unit_square) 0) (1, 0, 0)) = (1, 0, 0)
   \<and> Transform_interpolate_submobject straight_path_point unit_square unit_square
        (FadeOut_create_target (FadeOut_init unit_square (1, 0, 0) 0)) 1
       = FadeOut_create_target (FadeOut_init unit_square (1, 0, 0) 0)
   \<and> fm_opacity (Transform_interpolate_submobject straight_path_point unit_square unit_square
        (FadeOut_create_target (FadeOut_init unit_square (1, 0, 0) 0)) 1) = 0
   \<and> get_center (Transform_interpolate_submobject straight_path_point unit_square unit_square
        (FadeOut_create_target (FadeOut_init unit_square (1, 0, 0) 0)) 1)
       = vadd (get_center unit_square) (1, 0, 0)
   \<and> get_center unit_square = ORIGIN
   \<and> get_width unit_square = 1 \<and> get_height unit_square = 1
   \<and> get_width (Transform_interpolate_submobject straight_path_point unit_square unit_square
        (FadeOut_create_target (FadeOut_init unit_square (1, 0, 0) 0)) 1) = 0
   \<and> get_height (Transform_interpolate_submobject straight_path_point unit_square unit_square
        (FadeOut_create_target (FadeOut_init unit_square (1, 0, 0) 0)) 1) = 0"
proof -
  let ?t = "\<lparr>fm_points = [(1, 0, 0), (1, 0, 0), (1, 0, 0), (1, 0, 0)], fm_opacity = 0\<rparr>"
  have sq: "get_center unit_square = ORIGIN \<and> get_width unit_square = 1 \<and> get_height unit_square = 1"
    by (simp add: unit_square_def get_center_def get_width_def get_height_def midpoint_of_def
        lowest_def highest_def ORIGIN_def)
  have sh: "get_center (fm_shift (set_opacity (fm_copy unit_square) 0) (1, 0, 0)) = (1, 0, 0)"
    by (simp add: unit_square_def fm_copy_def set_opacity_def fm_shift_def get_center_def
        midpoint_of_def lowest_def highest_def)
  have fin: "Transform_interpolate_submobject straight_path_point unit_square unit_square ?t 1 = ?t"
    by (simp add: Transform_interpolate_submobject_def fm_interpolate_def straight_path_point_def
        interpolate_def unit_square_def)
  have ms: "fm_opacity ?t = 0 \<and> get_center ?t = (1, 0, 0) \<and> get_width ?t = 0 \<and> get_height ?t = 0"
    by (simp add: get_center_def get_width_def get_height_def midpoint_of_def lowest_def highest_def)
  show ?thesis
    using sq sh fin ms by (simp add: fade_out_target fade_out_steps [symmetric] ORIGIN_def)
qed

subsection \<open>Rotating: no drift across frames\<close>


























end
